theory Spec2Isabelle
  imports Complex_Main "HOL-Library.Char_ord" "HOL-Library.List_Lexorder"
begin

section \<open>Data model of \<open>ar_analysis.py\<close>\<close>

text \<open>
  The analyzer works on a pandas DataFrame read from a spreadsheet. A frame is modelled
  as the list of its rows in index order (\<open>read_excel\<close> gives the default index
  \<open>0 .. n - 1\<close>, so an index label is a position), a row as a record of its cells.

  \<open>read_excel\<close> is called without \<open>dtype\<close>, so the type of a cell follows from its column:
  \<^item> a document number is a text cell, an integer cell (a numeric column without blanks),
    or a cell of a \<open>float64\<close> column, which a numeric column becomes as soon as one of
    its cells is blank: then the number \<open>3148\<close> is the float \<open>3148.0\<close> and the blank is
    \<open>nan\<close>. \<open>DocFloat i\<close> is the float of integral value \<open>i\<close>, of magnitude at most
    \<open>2^53\<close> as document numbers are; fractional floats are not modelled;
  \<^item> a date cell is a \<open>Timestamp\<close> (nanoseconds since the epoch, as pandas stores it),
    the missing value \<open>NaT\<close> of a column that holds some date, or the float \<open>nan\<close> of a
    column that holds no date at all (\<open>DateNaN\<close>);
  \<^item> an amount cell is a number, the float \<open>NaN\<close> that pandas puts into an empty
    numeric cell, or Python's \<open>None\<close> (an object column). Finite numbers are modelled
    by exact rationals: comparisons of finite doubles agree with the comparison of their
    values, sums and rounding are idealised to exact arithmetic.
  The columns \<open>Days Past Due\<close>, \<open>Category\<close> and \<open>Exclusion Reason\<close> are created by column
  assignments that overwrite every row, so the record carries them from the start and
  their earlier content is never read.
\<close>

datatype doc_cell = DocStr string | DocInt int | DocFloat int | DocNaN

datatype date_cell = Timestamp int | NaT | DateNaN

datatype amount_cell = PyNone | NaN | Num rat

datatype py_error = ZeroDivisionError | TypeError

record row =
  document_number :: doc_cell
  name :: string
  invoice_date :: date_cell
  due_date :: date_cell
  payment_date :: date_cell
  amount :: amount_cell
  days_past_due :: int
  category :: string
  exclusion_reason :: string

type_synonym frame = "row list"

text \<open>The configuration that \<open>ARAnalyzer.__init__\<close> stores on the instance. The dictionary
  \<open>exclusion_notes\<close> is created with the two keys the code reads and is a record here.\<close>

record notes_dict =
  wire_fee :: string
  india_withholding :: string

record analyzer =
  wire_fee_threshold :: rat
  india_withholding_docs :: "string list"
  exclusion_notes :: notes_dict

definition ARAnalyzer_init :: analyzer where
  "ARAnalyzer_init =
     \<lparr> wire_fee_threshold = 100,
       india_withholding_docs = [''3148''],
       exclusion_notes = \<lparr> wire_fee = ''Remaining wire fees - excluded from AR'',
                 india_withholding = ''India Withholding Tax - excluded from AR'' \<rparr> \<rparr>"


section \<open>Python and pandas primitives\<close>

text \<open>\<open>str\<close> of an integer: decimal digits, a leading minus sign for negatives.\<close>

definition digit_char :: "nat \<Rightarrow> char" where
  "digit_char d = ''0123456789'' ! d"

function str_nat :: "nat \<Rightarrow> string" where
  "str_nat n = (if n < 10 then [digit_char n] else str_nat (n div 10) @ [digit_char (n mod 10)])"
  by pat_completeness auto
termination
  by (relation "measure id") auto

declare str_nat.simps [simp del]

definition str_int :: "int \<Rightarrow> string" where
  "str_int i = (if i < 0 then CHR ''-'' # str_nat (nat (- i)) else str_nat (nat i))"

text \<open>\<open>str(row['Document Number'])\<close>: a text prints as itself, an integer as its digits,
  an integral float as its digits followed by \<open>.0\<close>, the blank of a float column as
  \<open>nan\<close>.\<close>

fun str_py :: "doc_cell \<Rightarrow> string" where
  "str_py (DocStr s) = s"
| "str_py (DocInt i) = str_int i"
| "str_py (DocFloat i) = str_int i @ ''.0''"
| "str_py DocNaN = ''nan''"

text \<open>\<open>pd.notna\<close> on a date cell: true of a \<open>Timestamp\<close> only.\<close>

fun notna :: "date_cell \<Rightarrow> bool" where
  "notna (Timestamp t) = True"
| "notna NaT = False"
| "notna DateNaN = False"

text \<open>\<open>payment_date - due_date\<close> where the payment date is the \<open>Timestamp\<close> of value \<open>p\<close>:
  a \<open>Timedelta\<close> when the due date is a \<open>Timestamp\<close>, \<open>NaT\<close> when it is \<open>NaT\<close>, and a
  \<open>TypeError\<close> when it is the float \<open>nan\<close> (a \<open>Timestamp\<close> and a float cannot be
  subtracted). The attribute \<open>.days\<close> is the floor of the difference in days; on \<open>NaT\<close> it
  is the float \<open>nan\<close>.\<close>

datatype delta_cell = NaTd | Timedelta int

datatype days_val = DaysNaN | Days int

definition ns_per_day :: int where
  "ns_per_day = 86400000000000"

fun ts_sub :: "int \<Rightarrow> date_cell \<Rightarrow> py_error + delta_cell" where
  "ts_sub p (Timestamp d) = Inr (Timedelta (p - d))"
| "ts_sub p NaT = Inr NaTd"
| "ts_sub p DateNaN = Inl TypeError"

fun days :: "delta_cell \<Rightarrow> days_val" where
  "days NaTd = DaysNaN"
| "days (Timedelta d) = Days (d div ns_per_day)"

text \<open>\<open>Timestamp.date()\<close>: the calendar day, as a day number since the epoch.\<close>

definition date_of :: "int \<Rightarrow> int" where
  "date_of t = t div ns_per_day"

text \<open>\<open>max(0, x)\<close>: Python keeps the first argument unless the second is greater, and
  no comparison with \<open>nan\<close> is true.\<close>

fun py_max0 :: "days_val \<Rightarrow> int" where
  "py_max0 DaysNaN = 0"
| "py_max0 (Days n) = (if n > 0 then n else 0)"

text \<open>\<open>row['Amount'] or 0\<close>: \<open>None\<close> and zero are falsy and give the integer \<open>0\<close>, \<open>nan\<close> is
  truthy and stays. The result is a number or \<open>nan\<close>.\<close>

datatype number = NaNv | Val rat

fun or0 :: "amount_cell \<Rightarrow> number" where
  "or0 PyNone = Val 0"
| "or0 NaN = NaNv"
| "or0 (Num x) = (if x = 0 then Val 0 else Val x)"

text \<open>\<open>amount <= self.wire_fee_threshold\<close>: no comparison with \<open>nan\<close> is true.\<close>

fun amount_le :: "number \<Rightarrow> rat \<Rightarrow> bool" where
  "amount_le (Val x) t = (x \<le> t)"
| "amount_le NaNv t = False"


section \<open>Days past due\<close>

text \<open>\<open>today\<close> is \<open>datetime.now().date()\<close>, a day number since the epoch. The first
  branch is the one of \<open>pd.notna(payment_date)\<close>; it subtracts without looking at the due
  date, the second branch replaces a missing due date by \<open>today\<close>.\<close>

definition days_past_due_calc :: "int \<Rightarrow> row \<Rightarrow> py_error + int" where
  "days_past_due_calc today r =
     (let due = due_date r; pay = payment_date r in
      case pay of
        Timestamp p \<Rightarrow>
          (case ts_sub p due of
             Inl e \<Rightarrow> Inl e
           | Inr td \<Rightarrow> Inr (py_max0 (days td)))
      | _ \<Rightarrow>
          (let due_date_only = (case due of Timestamp t \<Rightarrow> date_of t | _ \<Rightarrow> today)
           in Inr (py_max0 (Days (today - due_date_only)))))"

text \<open>\<open>self.df.apply(days_past_due_calc, axis=1)\<close> calls the function on the rows in
  order and stops at the first exception; its results become the column
  \<open>Days Past Due\<close>.\<close>

fun apply_rows :: "(row \<Rightarrow> py_error + int) \<Rightarrow> frame \<Rightarrow> py_error + int list" where
  "apply_rows f [] = Inr []"
| "apply_rows f (r # rs) =
     (case f r of
        Inl e \<Rightarrow> Inl e
      | Inr v \<Rightarrow> (case apply_rows f rs of Inl e \<Rightarrow> Inl e | Inr vs \<Rightarrow> Inr (v # vs)))"

definition calculate_days_past_due :: "int \<Rightarrow> frame \<Rightarrow> py_error + frame" where
  "calculate_days_past_due today df =
     (case apply_rows (days_past_due_calc today) df of
        Inl e \<Rightarrow> Inl e
      | Inr vs \<Rightarrow> Inr (map2 (\<lambda>r v. r\<lparr>days_past_due := v\<rparr>) df vs))"


section \<open>Categorisation\<close>

text \<open>The state of the loop in \<open>categorize_invoices\<close>: the frame and the four counters
  that are printed at the end.\<close>

record cat_state =
  frame_of :: frame
  loop_paid_count :: nat
  loop_wire_fee_count :: nat
  loop_india_withholding_count :: nat
  loop_collectible_count :: nat

text \<open>\<open>self.df.at[idx, 'Category'] = v\<close> and \<open>self.df.at[idx, 'Exclusion Reason'] = v\<close>.\<close>

definition at_category :: "frame \<Rightarrow> nat \<Rightarrow> string \<Rightarrow> frame" where
  "at_category df idx v = df[idx := (df ! idx)\<lparr>category := v\<rparr>]"

definition at_exclusion_reason :: "frame \<Rightarrow> nat \<Rightarrow> string \<Rightarrow> frame" where
  "at_exclusion_reason df idx v = df[idx := (df ! idx)\<lparr>exclusion_reason := v\<rparr>]"

text \<open>One pass of the loop body, for the pair \<open>(idx, row)\<close> that \<open>iterrows\<close> yields.\<close>

definition categorize_body :: "analyzer \<Rightarrow> cat_state \<Rightarrow> nat \<times> row \<Rightarrow> cat_state" where
  "categorize_body an st ir =
     (let idx = fst ir; r = snd ir;
          doc_num = str_py (document_number r);
          amt = or0 (amount r);
          pay = payment_date r
      in
      if notna pay then
        st\<lparr>frame_of := at_category (frame_of st) idx ''Paid'',
           loop_paid_count := loop_paid_count st + 1\<rparr>
      else if doc_num \<in> set (india_withholding_docs an) then
        st\<lparr>frame_of := at_exclusion_reason (at_category (frame_of st) idx ''Excluded'') idx
                          (india_withholding (exclusion_notes an)),
           loop_india_withholding_count := loop_india_withholding_count st + 1\<rparr>
      else if amount_le amt (wire_fee_threshold an) then
        st\<lparr>frame_of := at_exclusion_reason (at_category (frame_of st) idx ''Excluded'') idx
                          (wire_fee (exclusion_notes an)),
           loop_wire_fee_count := loop_wire_fee_count st + 1\<rparr>
      else
        st\<lparr>frame_of := at_category (frame_of st) idx ''Collectible AR'',
           loop_collectible_count := loop_collectible_count st + 1\<rparr>)"

text \<open>The two column assignments, then the loop over \<open>iterrows\<close>, which yields the rows
  of the frame as it is when the loop starts.\<close>

definition categorize_state :: "analyzer \<Rightarrow> frame \<Rightarrow> cat_state" where
  "categorize_state an df =
     (let df1 = map (\<lambda>r. r\<lparr>category := ''Unknown''\<rparr>) df;
          df2 = map (\<lambda>r. r\<lparr>exclusion_reason := ''''\<rparr>) df1
      in foldl (categorize_body an)
           \<lparr>frame_of = df2, loop_paid_count = 0, loop_wire_fee_count = 0,
            loop_india_withholding_count = 0, loop_collectible_count = 0\<rparr>
           (enumerate 0 df2))"

definition categorize_invoices :: "analyzer \<Rightarrow> frame \<Rightarrow> frame" where
  "categorize_invoices an df = frame_of (categorize_state an df)"


section \<open>Metrics and aging\<close>

record metrics =
  total_payments :: rat
  collectible_ar :: rat
  excluded_total :: rat
  wire_fees :: rat
  india_withholding_total :: rat
  paid_count :: nat
  collectible_count :: nat
  excluded_count :: nat
  collection_rate :: rat
  oldest_days :: int

record aging_row =
  aging_category :: string
  total_amount :: rat
  invoice_count :: nat

text \<open>\<open>Series.sum()\<close> skips missing values and is \<open>0\<close> on an empty column; the \<open>count\<close>
  aggregation counts the values that are not missing.\<close>

fun amount_value :: "amount_cell \<Rightarrow> rat" where
  "amount_value (Num x) = x"
| "amount_value NaN = 0"
| "amount_value PyNone = 0"

fun amount_present :: "amount_cell \<Rightarrow> bool" where
  "amount_present (Num x) = True"
| "amount_present NaN = False"
| "amount_present PyNone = False"

definition amount_sum :: "frame \<Rightarrow> rat" where
  "amount_sum df = sum_list (map (\<lambda>r. amount_value (amount r)) df)"

definition amount_count :: "frame \<Rightarrow> nat" where
  "amount_count df = length (filter (\<lambda>r. amount_present (amount r)) df)"

text \<open>\<open>Series.str.contains(pat)\<close> for a pattern without regular-expression operators:
  \<open>pat\<close> occurs somewhere in the text.\<close>

fun str_contains :: "string \<Rightarrow> string \<Rightarrow> bool" where
  "str_contains [] pat = (pat = [])"
| "str_contains (c # cs) pat = (take (length pat) (c # cs) = pat \<or> str_contains cs pat)"

text \<open>\<open>a / b\<close> on Python integers.\<close>

definition py_truediv :: "nat \<Rightarrow> nat \<Rightarrow> py_error + rat" where
  "py_truediv a b = (if b = 0 then Inl ZeroDivisionError else Inr (of_nat a / of_nat b))"

text \<open>\<open>round(2)\<close>: numpy scales by 100, rounds half to even, and scales back.\<close>

definition rint :: "rat \<Rightarrow> int" where
  "rint x =
     (let f = \<lfloor>x\<rfloor>; d = x - of_int f in
      if d < 1 / 2 then f else if 1 / 2 < d then f + 1 else if even f then f else f + 1)"

definition round2 :: "rat \<Rightarrow> rat" where
  "round2 x = of_int (rint (x * 100)) / 100"

definition categorize_aging :: "int \<Rightarrow> string" where
  "categorize_aging d =
     (if d = 0 then ''On Time''
      else if d \<le> 30 then ''1-30 Days Past Due''
      else if d \<le> 60 then ''31-60 Days Past Due''
      else if d \<le> 90 then ''61-90 Days Past Due''
      else ''Over 90 Days Past Due'')"

definition aging_order :: "string list" where
  "aging_order = [''On Time'', ''1-30 Days Past Due'', ''31-60 Days Past Due'',
                  ''61-90 Days Past Due'', ''Over 90 Days Past Due'']"

text \<open>The \<open>Order\<close> column: the position of the label in \<open>aging_order\<close>. A label outside
  the list would map to \<open>NaN\<close>, which \<open>sort_values\<close> puts last.\<close>

definition order_of :: "string \<Rightarrow> nat" where
  "order_of c =
     (case map_of (map (\<lambda>(i, cat). (cat, i)) (enumerate 0 aging_order)) c of
        Some i \<Rightarrow> i
      | None \<Rightarrow> length aging_order)"

text \<open>\<open>groupby('Aging Category').agg({'Amount': ['sum', 'count']})\<close> on the rows paired
  with their label: one line per label that occurs, the labels in sorted order.\<close>

definition groupby_agg :: "(string \<times> row) list \<Rightarrow> (string \<times> rat \<times> nat) list" where
  "groupby_agg aged =
     map (\<lambda>k. let g = map snd (filter (\<lambda>p. fst p = k) aged)
               in (k, amount_sum g, amount_count g))
         (sort (remdups (map fst aged)))"

definition aging_summary_of :: "frame \<Rightarrow> aging_row list" where
  "aging_summary_of collectible =
     (let aged = map (\<lambda>r. (categorize_aging (days_past_due r), r)) collectible;
          rounded = map (\<lambda>(k, s, c). (k, round2 s, c)) (groupby_agg aged);
          summary = map (\<lambda>(k, s, c).
                       \<lparr>aging_category = k, total_amount = s, invoice_count = c\<rparr>) rounded
      in sort_key (\<lambda>a. order_of (aging_category a)) summary)"

text \<open>\<open>calculate_ar_metrics\<close> stores \<open>self.metrics\<close> and \<open>self.aging_summary\<close>; the model
  returns both, or the exception raised while the dictionary is built.\<close>

definition calculate_ar_metrics :: "frame \<Rightarrow> py_error + (metrics \<times> aging_row list)" where
  "calculate_ar_metrics df =
     (let paid_invoices = filter (\<lambda>r. category r = ''Paid'') df;
          collectible = filter (\<lambda>r. category r = ''Collectible AR'') df;
          excluded = filter (\<lambda>r. category r = ''Excluded'') df
      in
      case py_truediv (length paid_invoices) (length paid_invoices + length collectible) of
        Inl e \<Rightarrow> Inl e
      | Inr q \<Rightarrow>
          Inr (\<lparr> total_payments = amount_sum paid_invoices,
                 collectible_ar = amount_sum collectible,
                 excluded_total = amount_sum excluded,
                 wire_fees = amount_sum
                   (filter (\<lambda>r. str_contains (exclusion_reason r) ''wire fees'') excluded),
                 india_withholding_total = amount_sum
                   (filter (\<lambda>r. str_contains (exclusion_reason r) ''India'') excluded),
                 paid_count = length paid_invoices,
                 collectible_count = length collectible,
                 excluded_count = length excluded,
                 collection_rate = q * 100,
                 oldest_days = (case map days_past_due collectible of
                                  [] \<Rightarrow> 0
                                | d # ds \<Rightarrow> foldl max d ds) \<rparr>,
               aging_summary_of collectible))"

text \<open>The computing part of \<open>run_analysis\<close>, on the frame that \<open>load_data\<close> read.\<close>

definition run_analysis :: "int \<Rightarrow> analyzer \<Rightarrow> frame \<Rightarrow> py_error + (metrics \<times> aging_row list)" where
  "run_analysis today an df =
     (case calculate_days_past_due today df of
        Inl e \<Rightarrow> Inl e
      | Inr df1 \<Rightarrow> calculate_ar_metrics (categorize_invoices an df1))"


section \<open>The row-wise reading of the categorisation loop\<close>

text \<open>What the loop does to one row: the branch of the loop body that the row takes,
  applied to the row itself. \<open>reset_row\<close> is the effect of the two column assignments.
  That the loop computes exactly this for every row is proved below
  (\<open>categorize_invoices_map\<close>).\<close>

definition reset_row :: "row \<Rightarrow> row" where
  "reset_row r = r\<lparr>category := ''Unknown'', exclusion_reason := ''''\<rparr>"

definition categorize_row :: "analyzer \<Rightarrow> row \<Rightarrow> row" where
  "categorize_row an r =
     (if notna (payment_date r) then r\<lparr>category := ''Paid''\<rparr>
      else if str_py (document_number r) \<in> set (india_withholding_docs an) then
        r\<lparr>category := ''Excluded'',
          exclusion_reason := india_withholding (exclusion_notes an)\<rparr>
      else if amount_le (or0 (amount r)) (wire_fee_threshold an) then
        r\<lparr>category := ''Excluded'', exclusion_reason := wire_fee (exclusion_notes an)\<rparr>
      else r\<lparr>category := ''Collectible AR''\<rparr>)"


section \<open>The aging table, band by band\<close>

text \<open>The \<open>Aging Category\<close> that \<open>calculate_ar_metrics\<close> attaches to a collectible row, the
  rows of one band, and the line of the aging table for a band: the rounded sum and the
  count that \<open>groupby\<close> computes for that group. \<open>aging_summary_of_closed\<close> below shows
  that the table consists of these lines.\<close>

definition band :: "row \<Rightarrow> string" where
  "band = (\<lambda>r. categorize_aging (days_past_due r))"

definition band_rows :: "frame \<Rightarrow> string \<Rightarrow> frame" where
  "band_rows collectible k = filter (\<lambda>r. band r = k) collectible"

definition band_line :: "frame \<Rightarrow> string \<Rightarrow> aging_row" where
  "band_line collectible =
     (\<lambda>k. \<lparr>aging_category = k,
           total_amount = round2 (amount_sum (band_rows collectible k)),
           invoice_count = amount_count (band_rows collectible k)\<rparr>)"


section \<open>Sample frames\<close>

text \<open>The four invoices of the example scenario, as numeric document cells, evaluated as
  of 2025-03-01 (day 20148): due 2025-01-01 is day 20089, paid 2025-02-15 is day 20134, due
  2024-10-01 is day 19997.\<close>

definition example_frame :: frame where
  "example_frame =
     [\<lparr>document_number = DocInt 3148, name = ''A'', invoice_date = Timestamp (20059 * ns_per_day),
        due_date = Timestamp (20089 * ns_per_day), payment_date = NaT, amount = Num 500,
        days_past_due = 0, category = '''', exclusion_reason = ''''\<rparr>,
      \<lparr>document_number = DocInt 1001, name = ''B'', invoice_date = Timestamp (20059 * ns_per_day),
        due_date = Timestamp (20089 * ns_per_day), payment_date = NaT, amount = Num 50,
        days_past_due = 0, category = '''', exclusion_reason = ''''\<rparr>,
      \<lparr>document_number = DocInt 1002, name = ''C'', invoice_date = Timestamp (20059 * ns_per_day),
        due_date = Timestamp (20089 * ns_per_day),
        payment_date = Timestamp (20134 * ns_per_day), amount = Num 1000,
        days_past_due = 0, category = '''', exclusion_reason = ''''\<rparr>,
      \<lparr>document_number = DocInt 1003, name = ''D'', invoice_date = Timestamp (20059 * ns_per_day),
        due_date = Timestamp (19997 * ns_per_day), payment_date = NaT, amount = Num 2000,
        days_past_due = 0, category = '''', exclusion_reason = ''''\<rparr>]"

text \<open>A paid withholding document, an unpaid withholding document below the wire-fee
  threshold, an unpaid invoice at the threshold, and an open invoice.\<close>

definition priority_frame :: frame where
  "priority_frame =
     [\<lparr>document_number = DocStr ''3148'', name = ''paid withholding'', invoice_date = Timestamp (20059 * ns_per_day),
        due_date = Timestamp (20089 * ns_per_day),
        payment_date = Timestamp (20134 * ns_per_day), amount = Num 500,
        days_past_due = 45, category = '''', exclusion_reason = ''''\<rparr>,
      \<lparr>document_number = DocStr ''3148'', name = ''small withholding'', invoice_date = Timestamp (20059 * ns_per_day),
        due_date = Timestamp (20089 * ns_per_day), payment_date = NaT, amount = Num 50,
        days_past_due = 59, category = '''', exclusion_reason = ''''\<rparr>,
      \<lparr>document_number = DocStr ''1001'', name = ''wire fee'', invoice_date = Timestamp (20059 * ns_per_day),
        due_date = Timestamp (20089 * ns_per_day), payment_date = NaT, amount = Num 100,
        days_past_due = 59, category = '''', exclusion_reason = ''''\<rparr>,
      \<lparr>document_number = DocStr ''1003'', name = ''open'', invoice_date = Timestamp (20059 * ns_per_day),
        due_date = Timestamp (19997 * ns_per_day), payment_date = NaT, amount = Num 2000,
        days_past_due = 151, category = '''', exclusion_reason = ''''\<rparr>]"

text \<open>An unpaid invoice whose amount cell is empty in the spreadsheet.\<close>

definition nan_frame :: frame where
  "nan_frame =
     [\<lparr>document_number = DocStr ''1004'', name = ''no amount'', invoice_date = Timestamp (20059 * ns_per_day),
        due_date = Timestamp (20089 * ns_per_day), payment_date = DateNaN, amount = NaN,
        days_past_due = 59, category = '''', exclusion_reason = ''''\<rparr>]"

text \<open>A sheet whose \<open>Due Date\<close> column holds a date in the last row only: an unpaid and a
  paid invoice without due date (\<open>NaT\<close>), and an invoice due on 2025-01-01.\<close>

definition no_due_frame :: frame where
  "no_due_frame =
     [\<lparr>document_number = DocStr ''1005'', name = ''no due date'',
        invoice_date = Timestamp (20059 * ns_per_day),
        due_date = NaT, payment_date = NaT, amount = Num 700,
        days_past_due = 0, category = '''', exclusion_reason = ''''\<rparr>,
      \<lparr>document_number = DocStr ''1006'', name = ''paid, no due date'',
        invoice_date = Timestamp (20059 * ns_per_day),
        due_date = NaT, payment_date = Timestamp (20134 * ns_per_day), amount = Num 700,
        days_past_due = 0, category = '''', exclusion_reason = ''''\<rparr>,
      \<lparr>document_number = DocStr ''1007'', name = ''due'',
        invoice_date = Timestamp (20059 * ns_per_day),
        due_date = Timestamp (20089 * ns_per_day), payment_date = NaT, amount = Num 700,
        days_past_due = 0, category = '''', exclusion_reason = ''''\<rparr>]"

text \<open>A sheet whose \<open>Due Date\<close> column is blank throughout, so that its cells are the
  float \<open>nan\<close>: a paid invoice and an unpaid one.\<close>

definition blank_due_frame :: frame where
  "blank_due_frame =
     [\<lparr>document_number = DocStr ''1008'', name = ''paid'',
        invoice_date = Timestamp (20059 * ns_per_day),
        due_date = DateNaN, payment_date = Timestamp (20134 * ns_per_day),
        amount = Num 1000,
        days_past_due = 0, category = '''', exclusion_reason = ''''\<rparr>,
      \<lparr>document_number = DocStr ''1009'', name = ''open'',
        invoice_date = Timestamp (20059 * ns_per_day),
        due_date = DateNaN, payment_date = NaT, amount = Num 2000,
        days_past_due = 0, category = '''', exclusion_reason = ''''\<rparr>]"

text \<open>A sheet whose \<open>Document Number\<close> column has numbers and one blank cell, so that
  the column is \<open>float64\<close>: document 3148 unpaid with amount 500, document 3148 unpaid
  with amount 50, and a paid line without document number.\<close>

definition float_doc_frame :: frame where
  "float_doc_frame =
     [\<lparr>document_number = DocFloat 3148, name = ''withholding'',
        invoice_date = Timestamp (20059 * ns_per_day),
        due_date = Timestamp (20089 * ns_per_day), payment_date = NaT, amount = Num 500,
        days_past_due = 59, category = '''', exclusion_reason = ''''\<rparr>,
      \<lparr>document_number = DocFloat 3148, name = ''small withholding'',
        invoice_date = Timestamp (20059 * ns_per_day),
        due_date = Timestamp (20089 * ns_per_day), payment_date = NaT, amount = Num 50,
        days_past_due = 59, category = '''', exclusion_reason = ''''\<rparr>,
      \<lparr>document_number = DocNaN, name = ''no number'',
        invoice_date = Timestamp (20059 * ns_per_day),
        due_date = Timestamp (20089 * ns_per_day),
        payment_date = Timestamp (20134 * ns_per_day), amount = Num 1000,
        days_past_due = 45, category = '''', exclusion_reason = ''''\<rparr>]"

text \<open>A single unpaid wire fee: nothing paid, nothing collectible.\<close>

definition wire_fee_frame :: frame where
  "wire_fee_frame =
     [\<lparr>document_number = DocStr ''1001'', name = ''wire fee'', invoice_date = Timestamp (20059 * ns_per_day),
        due_date = Timestamp (20089 * ns_per_day), payment_date = DateNaN, amount = Num 50,
        days_past_due = 59, category = '''', exclusion_reason = ''''\<rparr>]"

text \<open>A classified frame: three collectible invoices that are 151, 10 and 0 days past
  due (the second of 5000.005), and a paid one.\<close>

definition aging_frame :: frame where
  "aging_frame =
     [\<lparr>document_number = DocStr ''2001'', name = ''old'', invoice_date = Timestamp (20059 * ns_per_day),
        due_date = Timestamp (19997 * ns_per_day), payment_date = NaT, amount = Num 2000,
        days_past_due = 151, category = ''Collectible AR'', exclusion_reason = ''''\<rparr>,
      \<lparr>document_number = DocStr ''2002'', name = ''recent'', invoice_date = Timestamp (20059 * ns_per_day),
        due_date = Timestamp (20138 * ns_per_day), payment_date = NaT,
        amount = Num (1000001 / 200),
        days_past_due = 10, category = ''Collectible AR'', exclusion_reason = ''''\<rparr>,
      \<lparr>document_number = DocStr ''2003'', name = ''current'', invoice_date = Timestamp (20059 * ns_per_day),
        due_date = Timestamp (20148 * ns_per_day), payment_date = NaT, amount = Num 300,
        days_past_due = 0, category = ''Collectible AR'', exclusion_reason = ''''\<rparr>,
      \<lparr>document_number = DocStr ''2004'', name = ''settled'', invoice_date = Timestamp (20059 * ns_per_day),
        due_date = Timestamp (20089 * ns_per_day),
        payment_date = Timestamp (20134 * ns_per_day), amount = Num 1000,
        days_past_due = 45, category = ''Paid'', exclusion_reason = ''''\<rparr>]"


section \<open>The loop computes the row-wise categorisation\<close>

lemma categorize_body_frame:
  assumes "k < length (frame_of st)" and "frame_of st ! k = r"
  shows "frame_of (categorize_body an st (k, r)) = (frame_of st)[k := categorize_row an r]"
  using assms
  by (simp add: categorize_body_def categorize_row_def at_category_def
      at_exclusion_reason_def Let_def)

text \<open>The loop invariant: rows before \<open>k\<close> are done, the rows from \<open>k\<close> on still hold
  what \<open>iterrows\<close> is going to yield for them.\<close>

lemma categorize_loop_frame:
  assumes "k + length rs \<le> length (frame_of st)"
    and "\<forall>j < length rs. frame_of st ! (k + j) = rs ! j"
  shows "frame_of (foldl (categorize_body an) st (enumerate k rs)) =
           take k (frame_of st) @ map (categorize_row an) rs
             @ drop (k + length rs) (frame_of st)"
  using assms
proof (induction rs arbitrary: k st)
  case Nil
  then show ?case by simp
next
  case (Cons r rs)
  let ?st = "categorize_body an st (k, r)"
  have k: "k < length (frame_of st)"
    using Cons.prems(1) by simp
  have r: "frame_of st ! k = r"
    using Cons.prems(2) by force
  have fr: "frame_of ?st = (frame_of st)[k := categorize_row an r]"
    using categorize_body_frame [OF k r] .
  have len: "Suc k + length rs \<le> length (frame_of ?st)"
    using Cons.prems(1) by (simp add: fr)
  have snap: "\<forall>j < length rs. frame_of ?st ! (Suc k + j) = rs ! j"
  proof (intro allI impI)
    fix j assume j: "j < length rs"
    have "frame_of st ! (k + Suc j) = (r # rs) ! Suc j"
      using Cons.prems(2) j by (metis length_Cons Suc_less_eq)
    then show "frame_of ?st ! (Suc k + j) = rs ! j"
      by (simp add: fr)
  qed
  have "frame_of (foldl (categorize_body an) ?st (enumerate (Suc k) rs)) =
          take (Suc k) (frame_of ?st) @ map (categorize_row an) rs
            @ drop (Suc k + length rs) (frame_of ?st)"
    using Cons.IH [OF len snap] .
  moreover have "take (Suc k) (frame_of ?st) = take k (frame_of st) @ [categorize_row an r]"
    using k by (simp add: fr take_Suc_conv_app_nth)
  moreover have "drop (Suc k + length rs) (frame_of ?st)
      = drop (k + length (r # rs)) (frame_of st)"
    by (simp add: fr)
  ultimately show ?case by simp
qed

lemma categorize_invoices_map:
  "categorize_invoices an df = map (\<lambda>r. categorize_row an (reset_row r)) df"
proof -
  let ?df2 = "map (\<lambda>r. r\<lparr>exclusion_reason := ''''\<rparr>)
                (map (\<lambda>r. r\<lparr>category := ''Unknown''\<rparr>) df)"
  let ?st = "\<lparr>frame_of = ?df2, loop_paid_count = 0, loop_wire_fee_count = 0,
              loop_india_withholding_count = 0, loop_collectible_count = 0\<rparr>"
  have "frame_of (foldl (categorize_body an) ?st (enumerate 0 ?df2)) =
          take 0 (frame_of ?st) @ map (categorize_row an) ?df2
            @ drop (0 + length ?df2) (frame_of ?st)"
    by (rule categorize_loop_frame) simp_all
  then show ?thesis
    by (simp add: categorize_invoices_def categorize_state_def Let_def reset_row_def comp_def)
qed

lemma str_int_3148: "str_int 3148 = ''3148''"
  by (simp add: str_int_def str_nat.simps digit_char_def)


section \<open>Claims about the classifier\<close>

text \<open>
  What the loop decides for a row, in terms of what it reads: a payment date gives \<open>Paid\<close>;
  otherwise the text \<open>str\<close> prints for the document cell, if it is in the withholding
  list, gives \<open>Excluded\<close> with the withholding note; otherwise an amount at most the
  threshold gives \<open>Excluded\<close> with the wire-fee note; otherwise \<open>Collectible AR\<close>. For
  a numeric amount \<open>x\<close> the amount test is \<open>x \<le> threshold\<close>.
\<close>

lemma categorize_first_match:
  assumes "i < length df"
  shows
    "(notna (payment_date (df ! i)) \<longrightarrow>
        category (categorize_invoices an df ! i) = ''Paid'') \<and>
     (\<not> notna (payment_date (df ! i)) \<and>
      str_py (document_number (df ! i)) \<in> set (india_withholding_docs an) \<longrightarrow>
        category (categorize_invoices an df ! i) = ''Excluded'' \<and>
        exclusion_reason (categorize_invoices an df ! i)
          = india_withholding (exclusion_notes an)) \<and>
     (\<not> notna (payment_date (df ! i)) \<and>
      str_py (document_number (df ! i)) \<notin> set (india_withholding_docs an) \<and>
      amount_le (or0 (amount (df ! i))) (wire_fee_threshold an) \<longrightarrow>
        category (categorize_invoices an df ! i) = ''Excluded'' \<and>
        exclusion_reason (categorize_invoices an df ! i) = wire_fee (exclusion_notes an)) \<and>
     (\<not> notna (payment_date (df ! i)) \<and>
      str_py (document_number (df ! i)) \<notin> set (india_withholding_docs an) \<and>
      \<not> amount_le (or0 (amount (df ! i))) (wire_fee_threshold an) \<longrightarrow>
        category (categorize_invoices an df ! i) = ''Collectible AR'') \<and>
     (\<forall>x. amount (df ! i) = Num x \<longrightarrow>
        amount_le (or0 (amount (df ! i))) (wire_fee_threshold an)
          = (x \<le> wire_fee_threshold an))"
  using assms
  by (simp add: categorize_invoices_map categorize_row_def reset_row_def)

text \<open>On text cells the order of the rules is the claimed one: a paid withholding
  document is \<open>Paid\<close>, an unpaid withholding document of amount 50 gets the withholding
  note, an unpaid invoice of amount 100 the wire-fee note.\<close>

lemma categorize_priority_frame:
  "category (categorize_invoices ARAnalyzer_init priority_frame ! 0) = ''Paid'' \<and>
   (category (categorize_invoices ARAnalyzer_init priority_frame ! 1) = ''Excluded'' \<and>
    exclusion_reason (categorize_invoices ARAnalyzer_init priority_frame ! 1) =
      ''India Withholding Tax - excluded from AR'') \<and>
   (category (categorize_invoices ARAnalyzer_init priority_frame ! 2) = ''Excluded'' \<and>
    exclusion_reason (categorize_invoices ARAnalyzer_init priority_frame ! 2) =
      ''Remaining wire fees - excluded from AR'') \<and>
   category (categorize_invoices ARAnalyzer_init priority_frame ! 3) = ''Collectible AR''"
  using categorize_first_match [of 0 priority_frame ARAnalyzer_init]
    categorize_first_match [of 1 priority_frame ARAnalyzer_init]
    categorize_first_match [of 2 priority_frame ARAnalyzer_init]
    categorize_first_match [of 3 priority_frame ARAnalyzer_init]
  by (simp add: priority_frame_def ARAnalyzer_init_def)

text \<open>An integer cell \<open>3148\<close> is matched, the float cell \<open>3148.0\<close> is not.\<close>

lemma str_py_3148:
  "str_py (DocInt 3148) = ''3148''" "str_py (DocFloat 3148) = ''3148.0''"
  by (simp_all add: str_int_3148)

text \<open>
  C1. The claim: an unpaid record whose document number is in the withholding set is
  \<open>Excluded\<close> with the withholding reason, before the wire-fee rule and the collectible
  rule apply. The loop compares \<open>str(row['Document Number'])\<close> with the list \<open>['3148']\<close>.
  In a sheet whose document-number column has one blank cell the column is \<open>float64\<close>,
  document 3148 prints as \<open>3148.0\<close> and is not found: unpaid with amount 500 it becomes
  \<open>Collectible AR\<close>, unpaid with amount 50 it is \<open>Excluded\<close> with the wire-fee note.
\<close>

theorem float_document_number_not_withheld:
  "str_py (document_number (float_doc_frame ! 0)) = ''3148.0'' \<and>
   category (categorize_invoices ARAnalyzer_init float_doc_frame ! 0) = ''Collectible AR'' \<and>
   exclusion_reason (categorize_invoices ARAnalyzer_init float_doc_frame ! 0) = '''' \<and>
   category (categorize_invoices ARAnalyzer_init float_doc_frame ! 1) = ''Excluded'' \<and>
   exclusion_reason (categorize_invoices ARAnalyzer_init float_doc_frame ! 1)
     = ''Remaining wire fees - excluded from AR''"
  by (simp add: categorize_invoices_map categorize_row_def reset_row_def float_doc_frame_def
      ARAnalyzer_init_def str_int_3148)

text \<open>
  The days past due, row by row: \<open>max(0, (payment_date - due_date).days)\<close> for a paid row
  with a due date, \<open>0\<close> for a paid row whose due date is \<open>NaT\<close> (\<open>.days\<close> is \<open>nan\<close> and \<open>max\<close>
  keeps its first argument), a \<open>TypeError\<close> for a paid row whose due date is the float
  \<open>nan\<close>; \<open>max(0, (today - due_date.date()).days)\<close> for an unpaid row with a due date and
  \<open>0\<close> for an unpaid row without. Every value returned is non-negative.
\<close>

lemma py_max0_nonneg: "0 \<le> py_max0 x"
  by (cases x) simp_all

lemma days_past_due_calc_value:
  "(\<forall>p d. payment_date r = Timestamp p \<and> due_date r = Timestamp d \<longrightarrow>
      days_past_due_calc today r = Inr (max 0 ((p - d) div ns_per_day))) \<and>
   (\<forall>p. payment_date r = Timestamp p \<and> due_date r = NaT \<longrightarrow>
      days_past_due_calc today r = Inr 0) \<and>
   (\<forall>p. payment_date r = Timestamp p \<and> due_date r = DateNaN \<longrightarrow>
      days_past_due_calc today r = Inl TypeError) \<and>
   (\<forall>d. \<not> notna (payment_date r) \<and> due_date r = Timestamp d \<longrightarrow>
      days_past_due_calc today r = Inr (max 0 (today - d div ns_per_day))) \<and>
   (\<not> notna (payment_date r) \<and> \<not> notna (due_date r) \<longrightarrow>
      days_past_due_calc today r = Inr 0) \<and>
   (\<forall>v. days_past_due_calc today r = Inr v \<longrightarrow> 0 \<le> v)"
  by (cases "payment_date r"; cases "due_date r")
    (auto simp: days_past_due_calc_def date_of_def max_def Let_def)

lemma days_past_due_calc_raises:
  "days_past_due_calc today r = Inl e \<longleftrightarrow>
     e = TypeError \<and> notna (payment_date r) \<and> due_date r = DateNaN"
  by (cases "payment_date r"; cases "due_date r")
    (auto simp: days_past_due_calc_def Let_def)

lemma apply_rows_Inr:
  "apply_rows f df = Inr vs \<longleftrightarrow>
     length vs = length df \<and> (\<forall>i < length df. f (df ! i) = Inr (vs ! i))"
proof (induction df arbitrary: vs)
  case Nil
  then show ?case by auto
next
  case (Cons r rs)
  show ?case
  proof (cases vs)
    case Nil
    then show ?thesis by (auto split: sum.splits)
  next
    case (Cons v vs')
    then show ?thesis
      using Cons.IH [of vs']
      by (auto simp: nth_Cons split: sum.splits nat.splits)
  qed
qed

lemma apply_rows_Inl:
  "apply_rows f df = Inl e \<Longrightarrow> \<exists>r \<in> set df. f r = Inl e"
  by (induction df) (auto split: sum.splits)

text \<open>The frame: when \<open>calculate_days_past_due\<close> returns, the frame has the same rows with
  the column \<open>Days Past Due\<close> set to the value of each row; it raises only when some
  paid row has a float \<open>nan\<close> as due date, and then with \<open>TypeError\<close>.\<close>

lemma calculate_days_past_due_value:
  assumes "calculate_days_past_due today df = Inr df'" and "i < length df"
  shows "length df' = length df \<and>
         df' ! i = (df ! i)\<lparr>days_past_due := days_past_due (df' ! i)\<rparr> \<and>
         days_past_due_calc today (df ! i) = Inr (days_past_due (df' ! i)) \<and>
         0 \<le> days_past_due (df' ! i)"
proof -
  obtain vs where vs: "apply_rows (days_past_due_calc today) df = Inr vs"
    and df': "df' = map2 (\<lambda>r v. r\<lparr>days_past_due := v\<rparr>) df vs"
    using assms(1) by (auto simp: calculate_days_past_due_def split: sum.splits)
  have len: "length vs = length df"
    and val: "days_past_due_calc today (df ! i) = Inr (vs ! i)"
    using vs assms(2) by (simp_all add: apply_rows_Inr)
  have row: "df' ! i = (df ! i)\<lparr>days_past_due := vs ! i\<rparr>"
    using assms(2) len by (simp add: df')
  have "0 \<le> vs ! i"
    using val days_past_due_calc_value [of "df ! i" today] by blast
  then show ?thesis
    using len val row by (simp add: df')
qed

lemma calculate_days_past_due_raises:
  assumes "calculate_days_past_due today df = Inl e"
  shows "e = TypeError \<and> (\<exists>r \<in> set df. notna (payment_date r) \<and> due_date r = DateNaN)"
proof -
  have "apply_rows (days_past_due_calc today) df = Inl e"
    using assms by (auto simp: calculate_days_past_due_def split: sum.splits)
  then obtain r where "r \<in> set df" and "days_past_due_calc today r = Inl e"
    using apply_rows_Inl by blast
  then show ?thesis
    by (auto simp: days_past_due_calc_raises)
qed

lemma calculate_days_past_due_returns:
  assumes "\<forall>r \<in> set df. notna (payment_date r) \<longrightarrow> due_date r \<noteq> DateNaN"
  shows "\<exists>df'. calculate_days_past_due today df = Inr df'"
proof (cases "calculate_days_past_due today df")
  case (Inl e)
  then show ?thesis
    using calculate_days_past_due_raises [OF Inl] assms by blast
next
  case (Inr df')
  then show ?thesis by blast
qed

text \<open>The example scenario as of 2025-03-01: the invoice paid on 2025-02-15 and due on
  2025-01-01 is 45 days past due, the unpaid one due on 2024-10-01 is 151 days past due;
  with \<open>NaT\<close> due dates the unpaid and the paid invoice both get \<open>0\<close>.\<close>

lemma calculate_days_past_due_examples:
  "map days_past_due (projr (calculate_days_past_due 20148 example_frame)) = [59, 59, 45, 151]"
  "map days_past_due (projr (calculate_days_past_due 20148 no_due_frame)) = [0, 0, 59]"
  by (simp_all add: calculate_days_past_due_def days_past_due_calc_def example_frame_def
      no_due_frame_def ns_per_day_def date_of_def Let_def)

text \<open>
  C3. The claim: the days past due are \<open>max(0, days_between(payment_date, due_date))\<close>
  for a paid record and \<open>max(0, days_between(current_date, due_date))\<close> for an unpaid one,
  a missing due date counting as a gap of zero, and the result is a non-negative integer
  in all cases. The unpaid branch guards the due date with \<open>pd.notna\<close>; the paid branch
  subtracts without the guard. In a sheet whose \<open>Due Date\<close> column is blank the due date
  is the float \<open>nan\<close>, and for the paid invoice \<open>payment_date - due_date\<close> raises
  \<open>TypeError\<close>: no days past due are computed for any row, and the analysis stops.
\<close>

theorem paid_without_due_dates_raises:
  "days_past_due_calc 20148 (blank_due_frame ! 0) = Inl TypeError \<and>
   days_past_due_calc 20148 (blank_due_frame ! 1) = Inr 0 \<and>
   calculate_days_past_due 20148 blank_due_frame = Inl TypeError \<and>
   run_analysis 20148 ARAnalyzer_init blank_due_frame = Inl TypeError"
  by (simp add: run_analysis_def calculate_days_past_due_def days_past_due_calc_def
      blank_due_frame_def Let_def)

text \<open>
  C4. After \<open>categorize_invoices\<close> every row carries one of the categories \<open>Paid\<close>,
  \<open>Collectible AR\<close>, \<open>Excluded\<close>, never the initial \<open>Unknown\<close>, and its exclusion reason is
  non-empty exactly when the category is \<open>Excluded\<close>. The two exclusion notes of the
  configuration are non-empty texts, as the ones the constructor sets are.
\<close>

theorem categorize_invoices_category_reason:
  assumes "wire_fee (exclusion_notes an) \<noteq> ''''"
    and "india_withholding (exclusion_notes an) \<noteq> ''''"
    and "i < length df"
  shows
    "category (categorize_invoices an df ! i) \<in> {''Paid'', ''Collectible AR'', ''Excluded''} \<and>
     category (categorize_invoices an df ! i) \<noteq> ''Unknown'' \<and>
     (exclusion_reason (categorize_invoices an df ! i) \<noteq> '''' \<longleftrightarrow>
        category (categorize_invoices an df ! i) = ''Excluded'')"
  using assms
  by (simp add: categorize_invoices_map categorize_row_def reset_row_def)

theorem categorize_invoices_category_reason_witness:
  "wire_fee (exclusion_notes ARAnalyzer_init) \<noteq> '''' \<and>
   india_withholding (exclusion_notes ARAnalyzer_init) \<noteq> '''' \<and>
   category (categorize_invoices ARAnalyzer_init priority_frame ! 1)
     \<in> {''Paid'', ''Collectible AR'', ''Excluded''} \<and>
   category (categorize_invoices ARAnalyzer_init priority_frame ! 1) \<noteq> ''Unknown'' \<and>
   (exclusion_reason (categorize_invoices ARAnalyzer_init priority_frame ! 1) \<noteq> '''' \<longleftrightarrow>
      category (categorize_invoices ARAnalyzer_init priority_frame ! 1) = ''Excluded'')"
  using categorize_invoices_category_reason [of ARAnalyzer_init 1 priority_frame]
  by (simp add: ARAnalyzer_init_def priority_frame_def)

text \<open>
  C6. The claim: an unpaid row that is no withholding document and has no amount is
  treated as amount zero and excluded as a wire fee. The loop reads the amount as
  \<open>row['Amount'] or 0\<close>; the empty cell is the float \<open>nan\<close>, which is truthy, so the amount
  stays \<open>nan\<close>, \<open>nan <= 100\<close> is false, and the row becomes \<open>Collectible AR\<close> with an empty
  exclusion reason. This is the code's result on such a row.
\<close>

theorem missing_amount_is_collectible:
  "category (categorize_invoices ARAnalyzer_init nan_frame ! 0) = ''Collectible AR'' \<and>
   exclusion_reason (categorize_invoices ARAnalyzer_init nan_frame ! 0) = ''''"
  by (simp add: categorize_invoices_map categorize_row_def reset_row_def nan_frame_def
      ARAnalyzer_init_def)

text \<open>The same for any configuration and frame, and the \<open>None\<close> cell for comparison:
  only there does \<open>or 0\<close> give zero.\<close>

lemma nan_amount_collectible:
  assumes "i < length df" and "\<not> notna (payment_date (df ! i))"
    and "amount (df ! i) = NaN"
    and "str_py (document_number (df ! i)) \<notin> set (india_withholding_docs an)"
  shows "category (categorize_invoices an df ! i) = ''Collectible AR''"
  using assms by (simp add: categorize_invoices_map categorize_row_def reset_row_def)

lemma none_amount_wire_fee:
  assumes "i < length df" and "\<not> notna (payment_date (df ! i))"
    and "amount (df ! i) = PyNone"
    and "str_py (document_number (df ! i)) \<notin> set (india_withholding_docs an)"
    and "0 \<le> wire_fee_threshold an"
  shows "category (categorize_invoices an df ! i) = ''Excluded'' \<and>
         exclusion_reason (categorize_invoices an df ! i) = wire_fee (exclusion_notes an)"
  using assms by (simp add: categorize_invoices_map categorize_row_def reset_row_def)

text \<open>
  C10. \<open>categorize_invoices\<close> writes the columns \<open>Category\<close> and \<open>Exclusion Reason\<close> only:
  the frame keeps its number of rows, and the columns \<open>Document Number\<close>, \<open>Name\<close>,
  \<open>Invoice Date\<close>, \<open>Due Date\<close>, \<open>Payment Date\<close>, \<open>Amount\<close> and \<open>Days Past Due\<close> are the
  same lists of cells, in the same order, before and after.
\<close>

theorem categorize_invoices_frame:
  "length (categorize_invoices an df) = length df \<and>
   map document_number (categorize_invoices an df) = map document_number df \<and>
   map name (categorize_invoices an df) = map name df \<and>
   map invoice_date (categorize_invoices an df) = map invoice_date df \<and>
   map due_date (categorize_invoices an df) = map due_date df \<and>
   map payment_date (categorize_invoices an df) = map payment_date df \<and>
   map amount (categorize_invoices an df) = map amount df \<and>
   map days_past_due (categorize_invoices an df) = map days_past_due df"
  by (simp add: categorize_invoices_map categorize_row_def reset_row_def comp_def)


section \<open>Claims about the aggregator\<close>

lemma calculate_ar_metrics_raises:
  "calculate_ar_metrics df = Inl ZeroDivisionError \<longleftrightarrow>
     filter (\<lambda>r. category r = ''Paid'') df = [] \<and>
     filter (\<lambda>r. category r = ''Collectible AR'') df = []"
  by (simp add: calculate_ar_metrics_def py_truediv_def Let_def)

text \<open>
  C2. The claim: with no paid and no collectible row the collection rate is \<open>0\<close> and the
  aggregation does not raise. The code divides \<open>len(paid_invoices)\<close> by
  \<open>len(paid_invoices) + len(collectible_ar)\<close> without a guard: on the empty frame, and on a
  frame whose only invoice is an excluded wire fee, \<open>calculate_ar_metrics\<close> raises
  \<open>ZeroDivisionError\<close>, and so does the whole analysis.
\<close>

theorem collection_rate_division_by_zero:
  "calculate_ar_metrics [] = Inl ZeroDivisionError \<and>
   calculate_ar_metrics (categorize_invoices ARAnalyzer_init wire_fee_frame)
     = Inl ZeroDivisionError \<and>
   run_analysis 20148 ARAnalyzer_init wire_fee_frame = Inl ZeroDivisionError"
  by (simp add: calculate_ar_metrics_raises run_analysis_def categorize_invoices_map
      categorize_row_def reset_row_def wire_fee_frame_def ARAnalyzer_init_def
      calculate_days_past_due_def days_past_due_calc_def Let_def)

text \<open>
  C5. \<open>categorize_aging\<close> maps the days past due to the band with inclusive upper edges:
  \<open>0\<close> to \<open>On Time\<close>, \<open>1..30\<close> to \<open>1-30 Days Past Due\<close>, \<open>31..60\<close> to \<open>31-60 Days Past Due\<close>,
  \<open>61..90\<close> to \<open>61-90 Days Past Due\<close>, more than \<open>90\<close> to \<open>Over 90 Days Past Due\<close>; so \<open>30\<close>,
  \<open>31\<close>, \<open>90\<close> and \<open>91\<close> fall into the second, third, fourth and fifth band.
\<close>

theorem categorize_aging_bands:
  "(d = 0 \<longrightarrow> categorize_aging d = ''On Time'') \<and>
   (1 \<le> d \<and> d \<le> 30 \<longrightarrow> categorize_aging d = ''1-30 Days Past Due'') \<and>
   (31 \<le> d \<and> d \<le> 60 \<longrightarrow> categorize_aging d = ''31-60 Days Past Due'') \<and>
   (61 \<le> d \<and> d \<le> 90 \<longrightarrow> categorize_aging d = ''61-90 Days Past Due'') \<and>
   (90 < d \<longrightarrow> categorize_aging d = ''Over 90 Days Past Due'') \<and>
   categorize_aging 30 = ''1-30 Days Past Due'' \<and>
   categorize_aging 31 = ''31-60 Days Past Due'' \<and>
   categorize_aging 90 = ''61-90 Days Past Due'' \<and>
   categorize_aging 91 = ''Over 90 Days Past Due''"
  by (simp add: categorize_aging_def)

theorem categorize_aging_bands_witness:
  "categorize_aging 0 = ''On Time'' \<and>
   categorize_aging 1 = ''1-30 Days Past Due'' \<and>
   categorize_aging 60 = ''31-60 Days Past Due'' \<and>
   categorize_aging 61 = ''61-90 Days Past Due'' \<and>
   categorize_aging 151 = ''Over 90 Days Past Due''"
  using categorize_aging_bands [of 0] categorize_aging_bands [of 1]
    categorize_aging_bands [of 60] categorize_aging_bands [of 61]
    categorize_aging_bands [of 151]
  by simp

text \<open>Facts about the band labels, the closed form of the aging table, and the sums.\<close>

lemma order_of_labels:
  "order_of ''On Time'' = 0" "order_of ''1-30 Days Past Due'' = 1"
  "order_of ''31-60 Days Past Due'' = 2" "order_of ''61-90 Days Past Due'' = 3"
  "order_of ''Over 90 Days Past Due'' = 4"
  by (simp_all add: order_of_def aging_order_def)

lemma band_in_aging_order: "band r \<in> set aging_order"
  by (simp add: band_def categorize_aging_def aging_order_def)

lemma inj_on_order_of: "inj_on order_of (set aging_order)"
  by (simp add: aging_order_def order_of_labels)

lemma sorted_order_of_aging_order: "sorted (map order_of aging_order)"
  by (simp add: aging_order_def order_of_labels)

lemma distinct_aging_order: "distinct aging_order"
  by (simp add: aging_order_def)

lemma group_rows: "map snd (filter (\<lambda>p. fst p = k) (map (\<lambda>r. (f r, r)) xs)) = filter (\<lambda>r. f r = k) xs"
  by (induction xs) simp_all

lemma aging_summary_of_closed:
  "aging_summary_of collectible =
     sort_key (\<lambda>a. order_of (aging_category a))
       (map (band_line collectible) (sort (remdups (map band collectible))))"
  by (simp add: aging_summary_of_def groupby_agg_def Let_def group_rows band_line_def
      band_rows_def band_def comp_def)

lemma distinct_map_sort_key:
  "distinct (map f (sort_key g xs)) = distinct (map f xs)"
  by (simp add: distinct_map)

lemma aging_category_band_line: "aging_category (band_line c k) = k"
  by (simp add: band_line_def)

lemma summary_labels_set:
  "aging_category ` set (aging_summary_of collectible) = band ` set collectible"
  by (simp add: aging_summary_of_closed image_image aging_category_band_line)

lemma summary_labels_distinct:
  "distinct (map aging_category (aging_summary_of collectible))"
  by (simp add: aging_summary_of_closed distinct_map_sort_key comp_def aging_category_band_line)

lemma summary_labels_sorted:
  "sorted (map order_of (map aging_category (aging_summary_of collectible)))"
proof -
  have "sorted (map (\<lambda>a. order_of (aging_category a)) (aging_summary_of collectible))"
    unfolding aging_summary_of_closed by (rule sorted_sort_key)
  then show ?thesis by (simp add: comp_def)
qed

lemma summary_labels_canonical:
  "map aging_category (aging_summary_of collectible) =
     filter (\<lambda>b. b \<in> band ` set collectible) aging_order"
proof (rule map_sorted_distinct_set_unique [where f = order_of])
  let ?L = "map aging_category (aging_summary_of collectible)"
  let ?F = "filter (\<lambda>b. b \<in> band ` set collectible) aging_order"
  have sub: "set ?L \<subseteq> set aging_order"
    using band_in_aging_order by (auto simp: summary_labels_set)
  have subF: "set ?F \<subseteq> set aging_order" by auto
  show inj: "inj_on order_of (set ?L \<union> set ?F)"
    using sub subF by (intro inj_on_subset [OF inj_on_order_of]) blast
  show "sorted (map order_of ?L)" by (rule summary_labels_sorted)
  have injL: "inj_on order_of (set ?L)"
    using sub by (rule inj_on_subset [OF inj_on_order_of])
  show "distinct (map order_of ?L)"
    by (rule iffD2 [OF distinct_map]) (rule conjI [OF summary_labels_distinct injL])
  show "sorted (map order_of ?F)"
    by (rule sorted_filter [OF sorted_order_of_aging_order])
  have injF: "inj_on order_of (set ?F)"
    using subF by (rule inj_on_subset [OF inj_on_order_of])
  have "distinct ?F"
    using distinct_aging_order by simp
  then show "distinct (map order_of ?F)"
    by (rule iffD2 [OF distinct_map, OF conjI [OF _ injF]])
  show "set ?L = set ?F"
    using band_in_aging_order by (auto simp: summary_labels_set)
qed

lemma sum_list_map_insort_key:
  fixes f :: "'a \<Rightarrow> rat"
  shows "sum_list (map f (insort_key g x xs)) = f x + sum_list (map f xs)"
  by (induction xs) simp_all

lemma sum_list_map_sort_key:
  fixes f :: "'a \<Rightarrow> rat"
  shows "sum_list (map f (sort_key g xs)) = sum_list (map f xs)"
  by (induction xs) (simp_all add: sum_list_map_insort_key)

lemma sum_list_single_key:
  fixes v :: rat
  assumes "distinct ks" and "b \<in> set ks"
  shows "sum_list (map (\<lambda>k. if b = k then v else 0) ks) = v"
  using assms
proof (induction ks)
  case Nil
  then show ?case by simp
next
  case (Cons k ks)
  show ?case
  proof (cases "b = k")
    case True
    then have "b \<notin> set ks" using Cons.prems(1) by simp
    then have "sum_list (map (\<lambda>k. if b = k then v else 0) ks) = 0"
      by (induction ks) auto
    with True show ?thesis by simp
  next
    case False
    then show ?thesis using Cons by simp
  qed
qed

lemma amount_sum_Cons: "amount_sum (r # rs) = amount_value (amount r) + amount_sum rs"
  by (simp add: amount_sum_def)

lemma amount_sum_Nil: "amount_sum [] = 0"
  by (simp add: amount_sum_def)

lemma band_sums_partition:
  assumes "distinct ks" and "band ` set c \<subseteq> set ks"
  shows "sum_list (map (\<lambda>k. amount_sum (band_rows c k)) ks) = amount_sum c"
  using assms(2)
proof (induction c)
  case Nil
  then show ?case by (simp add: band_rows_def amount_sum_Nil)
next
  case (Cons r c)
  have in_ks: "band r \<in> set ks" using Cons.prems by simp
  have split: "amount_sum (band_rows (r # c) k) =
      (if band r = k then amount_value (amount r) else 0) + amount_sum (band_rows c k)" for k
    by (simp add: band_rows_def amount_sum_Cons)
  have "sum_list (map (\<lambda>k. amount_sum (band_rows (r # c) k)) ks) =
      sum_list (map (\<lambda>k. if band r = k then amount_value (amount r) else 0) ks)
        + sum_list (map (\<lambda>k. amount_sum (band_rows c k)) ks)"
    by (simp add: split sum_list_addf)
  also have "\<dots> = amount_value (amount r) + amount_sum c"
    using Cons sum_list_single_key [OF assms(1) in_ks] by simp
  finally show ?case by (simp add: amount_sum_Cons)
qed

lemma rint_close: "\<bar>of_int (rint y) - y\<bar> \<le> 1 / 2"
proof -
  define f where "f = \<lfloor>y\<rfloor>"
  define d where "d = y - of_int f"
  have d0: "0 \<le> d" and d1: "d < 1"
    unfolding d_def f_def by linarith+
  have r: "rint y = (if d < 1 / 2 then f else if 1 / 2 < d then f + 1
                     else if even f then f else f + 1)"
    by (simp add: rint_def Let_def f_def d_def)
  consider (down) "rint y = f" "d \<le> 1 / 2" | (up) "rint y = f + 1" "1 / 2 \<le> d"
    using r by (auto split: if_splits)
  then show ?thesis
  proof cases
    case down
    have "of_int (rint y) - y = - d"
      by (simp add: down(1) d_def)
    then show ?thesis using d0 down(2) by simp
  next
    case up
    have "of_int (rint y) - y = 1 - d"
      by (simp add: up(1) d_def)
    then show ?thesis using d1 up(2) by simp
  qed
qed

lemma round2_close: "\<bar>round2 x - x\<bar> \<le> 1 / 200"
proof -
  have eq: "round2 x - x = (of_int (rint (x * 100)) - x * 100) / 100"
    by (simp add: round2_def diff_divide_distrib)
  have "\<bar>round2 x - x\<bar> = \<bar>(of_int (rint (x * 100)) - x * 100) / 100\<bar>"
    by (simp only: eq)
  also have "\<dots> = \<bar>of_int (rint (x * 100)) - x * 100\<bar> / 100"
    by (simp only: abs_divide)
  also have "\<dots> \<le> (1 / 2) / 100"
    using rint_close [of "x * 100"] by (simp add: divide_right_mono)
  finally show ?thesis by simp
qed

lemma sum_list_close:
  fixes f g :: "'a \<Rightarrow> rat"
  assumes "\<And>k. \<bar>f k - g k\<bar> \<le> e"
  shows "\<bar>sum_list (map f ks) - sum_list (map g ks)\<bar> \<le> of_nat (length ks) * e"
proof (induction ks)
  case Nil
  then show ?case by simp
next
  case (Cons k ks)
  have "\<bar>sum_list (map f (k # ks)) - sum_list (map g (k # ks))\<bar>
      = \<bar>(f k - g k) + (sum_list (map f ks) - sum_list (map g ks))\<bar>"
    by simp
  also have "\<dots> \<le> \<bar>f k - g k\<bar> + \<bar>sum_list (map f ks) - sum_list (map g ks)\<bar>"
    by (rule abs_triangle_ineq)
  also have "\<dots> \<le> e + of_nat (length ks) * e"
    using assms [of k] Cons.IH by (rule add_mono)
  finally show ?case by (simp add: algebra_simps)
qed

lemma summary_totals_close:
  "\<bar>sum_list (map total_amount (aging_summary_of c)) - amount_sum c\<bar>
     \<le> of_nat (length (aging_summary_of c)) * (1 / 200)"
proof -
  let ?ks = "sort (remdups (map band c))"
  have tot: "sum_list (map total_amount (aging_summary_of c))
      = sum_list (map (\<lambda>k. round2 (amount_sum (band_rows c k))) ?ks)"
    by (simp add: aging_summary_of_closed sum_list_map_sort_key comp_def band_line_def)
  have part: "sum_list (map (\<lambda>k. amount_sum (band_rows c k)) ?ks) = amount_sum c"
    by (rule band_sums_partition) simp_all
  have len: "length (aging_summary_of c) = length ?ks"
    by (simp add: aging_summary_of_closed)
  have "\<bar>sum_list (map (\<lambda>k. round2 (amount_sum (band_rows c k))) ?ks)
        - sum_list (map (\<lambda>k. amount_sum (band_rows c k)) ?ks)\<bar>
      \<le> of_nat (length ?ks) * (1 / 200)"
    by (rule sum_list_close) (rule round2_close)
  then show ?thesis
    by (simp only: tot part len)
qed

lemma summary_length: "length (aging_summary_of c) \<le> 5"
proof -
  have "length (aging_summary_of c) = length (map aging_category (aging_summary_of c))"
    by simp
  also have "\<dots> = card (aging_category ` set (aging_summary_of c))"
    using distinct_card [OF summary_labels_distinct, of c] by simp
  also have "\<dots> \<le> card (set aging_order)"
    using band_in_aging_order by (intro card_mono) (auto simp: summary_labels_set)
  also have "\<dots> = 5"
    by (simp add: aging_order_def)
  finally show ?thesis .
qed

lemma calculate_ar_metrics_Inr:
  assumes "calculate_ar_metrics df = Inr (m, t)"
  shows "t = aging_summary_of (filter (\<lambda>r. category r = ''Collectible AR'') df)"
    and "collectible_ar m = amount_sum (filter (\<lambda>r. category r = ''Collectible AR'') df)"
  using assms
  by (auto simp: calculate_ar_metrics_def Let_def split: sum.splits)

text \<open>
  C7. Whenever \<open>calculate_ar_metrics\<close> returns, the labels of the aging table are the
  canonical list \<open>On Time\<close>, \<open>1-30\<close>, \<open>31-60\<close>, \<open>61-90\<close>, \<open>Over 90 Days Past Due\<close> with the
  labels that do not occur removed: the lines stand in canonical order (strictly
  increasing position in \<open>aging_order\<close>), whatever order \<open>groupby\<close> produced them in
  (it sorts the labels as text, which puts \<open>1-30 Days Past Due\<close> before \<open>On Time\<close>).
\<close>

theorem aging_summary_canonical_order:
  assumes "calculate_ar_metrics df = Inr (m, t)"
  shows "map aging_category t = filter (\<lambda>b. b \<in> set (map aging_category t)) aging_order \<and>
         sorted_wrt (<) (map (\<lambda>a. order_of (aging_category a)) t)"
proof -
  let ?c = "filter (\<lambda>r. category r = ''Collectible AR'') df"
  have t: "t = aging_summary_of ?c"
    using calculate_ar_metrics_Inr(1) [OF assms] .
  have labels: "set (map aging_category t) = band ` set ?c"
    by (simp add: t summary_labels_set)
  have canon: "map aging_category t = filter (\<lambda>b. b \<in> band ` set ?c) aging_order"
    unfolding t by (rule summary_labels_canonical)
  have first: "map aging_category t
      = filter (\<lambda>b. b \<in> set (map aging_category t)) aging_order"
    by (subst labels) (rule canon)
  have inj: "inj_on order_of (set (map aging_category t))"
    unfolding labels using band_in_aging_order
    by (intro inj_on_subset [OF inj_on_order_of]) auto
  have "distinct (map order_of (map aging_category t))"
    by (rule iffD2 [OF distinct_map])
      (rule conjI [OF summary_labels_distinct [of ?c, folded t] inj])
  moreover have "sorted (map order_of (map aging_category t))"
    unfolding t by (rule summary_labels_sorted)
  ultimately have "sorted_wrt (<) (map order_of (map aging_category t))"
    by (simp only: strict_sorted_iff)
  then have "sorted_wrt (<) (map (\<lambda>a. order_of (aging_category a)) t)"
    by (simp add: comp_def)
  with first show ?thesis ..
qed

theorem aging_summary_canonical_order_witness:
  "calculate_ar_metrics aging_frame =
     Inr (\<lparr>total_payments = 1000, collectible_ar = 1460001 / 200, excluded_total = 0,
            wire_fees = 0, india_withholding_total = 0, paid_count = 1,
            collectible_count = 3, excluded_count = 0, collection_rate = 25,
            oldest_days = 151\<rparr>,
          [\<lparr>aging_category = ''On Time'', total_amount = 300, invoice_count = 1\<rparr>,
           \<lparr>aging_category = ''1-30 Days Past Due'', total_amount = 5000, invoice_count = 1\<rparr>,
           \<lparr>aging_category = ''Over 90 Days Past Due'', total_amount = 2000,
              invoice_count = 1\<rparr>]) \<and>
   [''On Time'', ''1-30 Days Past Due'', ''Over 90 Days Past Due'']
     = filter (\<lambda>b. b \<in> {''On Time'', ''1-30 Days Past Due'', ''Over 90 Days Past Due''})
         aging_order \<and>
   map fst (groupby_agg (map (\<lambda>r. (categorize_aging (days_past_due r), r))
                           (filter (\<lambda>r. category r = ''Collectible AR'') aging_frame)))
     = [''1-30 Days Past Due'', ''On Time'', ''Over 90 Days Past Due'']"
proof -
  have run: "calculate_ar_metrics aging_frame =
     Inr (\<lparr>total_payments = 1000, collectible_ar = 1460001 / 200, excluded_total = 0,
            wire_fees = 0, india_withholding_total = 0, paid_count = 1,
            collectible_count = 3, excluded_count = 0, collection_rate = 25,
            oldest_days = 151\<rparr>,
          [\<lparr>aging_category = ''On Time'', total_amount = 300, invoice_count = 1\<rparr>,
           \<lparr>aging_category = ''1-30 Days Past Due'', total_amount = 5000, invoice_count = 1\<rparr>,
           \<lparr>aging_category = ''Over 90 Days Past Due'', total_amount = 2000,
              invoice_count = 1\<rparr>])"
    by code_simp
  have grouped: "map fst (groupby_agg (map (\<lambda>r. (categorize_aging (days_past_due r), r))
                           (filter (\<lambda>r. category r = ''Collectible AR'') aging_frame)))
     = [''1-30 Days Past Due'', ''On Time'', ''Over 90 Days Past Due'']"
    by code_simp
  show ?thesis
    using aging_summary_canonical_order [OF run] run grouped by simp
qed

text \<open>
  C8. Whenever \<open>calculate_ar_metrics\<close> returns, the sum of the \<open>Total Amount\<close> column of
  the aging table equals the metric \<open>collectible_ar\<close> up to the rounding of the band totals
  to two decimals: the difference is at most \<open>0.005\<close> for each line of the table, and the
  table has at most five lines, so it is at most \<open>0.025\<close>. (Amounts are exact rationals
  here; the rounding error of floating-point addition is outside the model.)
\<close>

theorem aging_totals_sum:
  assumes "calculate_ar_metrics df = Inr (m, t)"
  shows "\<bar>sum_list (map total_amount t) - collectible_ar m\<bar> \<le> of_nat (length t) * (1 / 200) \<and>
         length t \<le> 5 \<and>
         \<bar>sum_list (map total_amount t) - collectible_ar m\<bar> \<le> 25 / 1000"
proof -
  let ?c = "filter (\<lambda>r. category r = ''Collectible AR'') df"
  have t: "t = aging_summary_of ?c" and m: "collectible_ar m = amount_sum ?c"
    using calculate_ar_metrics_Inr [OF assms] .
  have close: "\<bar>sum_list (map total_amount t) - collectible_ar m\<bar>
      \<le> of_nat (length t) * (1 / 200)"
    unfolding t m by (rule summary_totals_close)
  have len: "length t \<le> 5"
    unfolding t by (rule summary_length)
  then have "(of_nat (length t) :: rat) \<le> 5"
    by simp
  then have "(of_nat (length t) :: rat) * (1 / 200) \<le> 25 / 1000"
    by simp
  with close len show ?thesis by simp
qed

theorem aging_totals_sum_witness:
  "calculate_ar_metrics aging_frame =
     Inr (\<lparr>total_payments = 1000, collectible_ar = 1460001 / 200, excluded_total = 0,
            wire_fees = 0, india_withholding_total = 0, paid_count = 1,
            collectible_count = 3, excluded_count = 0, collection_rate = 25,
            oldest_days = 151\<rparr>,
          [\<lparr>aging_category = ''On Time'', total_amount = 300, invoice_count = 1\<rparr>,
           \<lparr>aging_category = ''1-30 Days Past Due'', total_amount = 5000, invoice_count = 1\<rparr>,
           \<lparr>aging_category = ''Over 90 Days Past Due'', total_amount = 2000,
              invoice_count = 1\<rparr>]) \<and>
   \<bar>(300 + 5000 + 2000) - 1460001 / 200\<bar> \<le> (3 * (1 / 200) :: rat)"
proof -
  have run: "calculate_ar_metrics aging_frame =
     Inr (\<lparr>total_payments = 1000, collectible_ar = 1460001 / 200, excluded_total = 0,
            wire_fees = 0, india_withholding_total = 0, paid_count = 1,
            collectible_count = 3, excluded_count = 0, collection_rate = 25,
            oldest_days = 151\<rparr>,
          [\<lparr>aging_category = ''On Time'', total_amount = 300, invoice_count = 1\<rparr>,
           \<lparr>aging_category = ''1-30 Days Past Due'', total_amount = 5000, invoice_count = 1\<rparr>,
           \<lparr>aging_category = ''Over 90 Days Past Due'', total_amount = 2000,
              invoice_count = 1\<rparr>])"
    by code_simp
  show ?thesis
    using aging_totals_sum [OF run] run by simp
qed

text \<open>
  C9. The claim: the aging table has a line for each of the five bands, with zero total
  and zero count for a band without collectible rows. On the four invoices of the example
  scenario the analysis returns an aging table with the single line
  \<open>Over 90 Days Past Due\<close>; the band \<open>On Time\<close>, like three others, has no line.
\<close>

theorem empty_bands_absent:
  "run_analysis 20148 ARAnalyzer_init example_frame =
     Inr (\<lparr>total_payments = 1000, collectible_ar = 2000, excluded_total = 550,
            wire_fees = 50, india_withholding_total = 500, paid_count = 1,
            collectible_count = 1, excluded_count = 2, collection_rate = 50,
            oldest_days = 151\<rparr>,
          [\<lparr>aging_category = ''Over 90 Days Past Due'', total_amount = 2000,
             invoice_count = 1\<rparr>]) \<and>
   ''On Time'' \<in> set aging_order \<and>
   ''On Time'' \<notin> set (map aging_category
          [\<lparr>aging_category = ''Over 90 Days Past Due'', total_amount = 2000,
             invoice_count = 1\<rparr>])"
proof -
  have "run_analysis 20148 ARAnalyzer_init example_frame =
     Inr (\<lparr>total_payments = 1000, collectible_ar = 2000, excluded_total = 550,
            wire_fees = 50, india_withholding_total = 500, paid_count = 1,
            collectible_count = 1, excluded_count = 2, collection_rate = 50,
            oldest_days = 151\<rparr>,
          [\<lparr>aging_category = ''Over 90 Days Past Due'', total_amount = 2000,
             invoice_count = 1\<rparr>])"
    by code_simp
  then show ?thesis
    by (simp add: aging_order_def)
qed

text \<open>
  C9, as the code has it. Whenever \<open>calculate_ar_metrics\<close> returns, the aging table has
  exactly one line for each band into which at least one \<open>Collectible AR\<close> row falls, and
  no line for any other band; the line carries the sum of the amounts of the band's rows,
  rounded to two decimals, and the number of those rows that have an amount.
\<close>

theorem aging_summary_present_bands:
  assumes "calculate_ar_metrics df = Inr (m, t)"
  shows
    "distinct (map aging_category t) \<and>
     (\<forall>b. b \<in> set (map aging_category t) \<longleftrightarrow>
        (\<exists>r \<in> set df. category r = ''Collectible AR'' \<and>
           categorize_aging (days_past_due r) = b)) \<and>
     (\<forall>a \<in> set t.
        total_amount a = round2 (amount_sum (filter (\<lambda>r. category r = ''Collectible AR'' \<and>
           categorize_aging (days_past_due r) = aging_category a) df)) \<and>
        invoice_count a = amount_count (filter (\<lambda>r. category r = ''Collectible AR'' \<and>
           categorize_aging (days_past_due r) = aging_category a) df))"
proof -
  let ?c = "filter (\<lambda>r. category r = ''Collectible AR'') df"
  have t: "t = aging_summary_of ?c"
    using calculate_ar_metrics_Inr(1) [OF assms] .
  have d: "distinct (map aging_category t)"
    unfolding t by (rule summary_labels_distinct)
  have l: "b \<in> set (map aging_category t) \<longleftrightarrow>
        (\<exists>r \<in> set df. category r = ''Collectible AR'' \<and>
           categorize_aging (days_past_due r) = b)" for b
    using summary_labels_set [of ?c] by (auto simp: t band_def)
  have rows: "band_rows ?c k = filter (\<lambda>r. category r = ''Collectible AR'' \<and>
           categorize_aging (days_past_due r) = k) df" for k
    by (simp add: band_rows_def band_def conj_commute)
  have "set t = band_line ?c ` band ` set ?c"
    by (simp add: t aging_summary_of_closed)
  then have v: "total_amount a = round2 (amount_sum (band_rows ?c (aging_category a))) \<and>
      invoice_count a = amount_count (band_rows ?c (aging_category a))" if "a \<in> set t" for a
    using that by (auto simp: band_line_def)
  show ?thesis
    using d l v by (simp only: rows) blast
qed

theorem aging_summary_present_bands_witness:
  "calculate_ar_metrics aging_frame =
     Inr (\<lparr>total_payments = 1000, collectible_ar = 1460001 / 200, excluded_total = 0,
            wire_fees = 0, india_withholding_total = 0, paid_count = 1,
            collectible_count = 3, excluded_count = 0, collection_rate = 25,
            oldest_days = 151\<rparr>,
          [\<lparr>aging_category = ''On Time'', total_amount = 300, invoice_count = 1\<rparr>,
           \<lparr>aging_category = ''1-30 Days Past Due'', total_amount = 5000, invoice_count = 1\<rparr>,
           \<lparr>aging_category = ''Over 90 Days Past Due'', total_amount = 2000,
              invoice_count = 1\<rparr>]) \<and>
   (\<exists>r \<in> set aging_frame. category r = ''Collectible AR'' \<and>
      categorize_aging (days_past_due r) = ''On Time'') \<and>
   \<not> (\<exists>r \<in> set aging_frame. category r = ''Collectible AR'' \<and>
      categorize_aging (days_past_due r) = ''61-90 Days Past Due'')"
proof -
  have run: "calculate_ar_metrics aging_frame =
     Inr (\<lparr>total_payments = 1000, collectible_ar = 1460001 / 200, excluded_total = 0,
            wire_fees = 0, india_withholding_total = 0, paid_count = 1,
            collectible_count = 3, excluded_count = 0, collection_rate = 25,
            oldest_days = 151\<rparr>,
          [\<lparr>aging_category = ''On Time'', total_amount = 300, invoice_count = 1\<rparr>,
           \<lparr>aging_category = ''1-30 Days Past Due'', total_amount = 5000, invoice_count = 1\<rparr>,
           \<lparr>aging_category = ''Over 90 Days Past Due'', total_amount = 2000,
              invoice_count = 1\<rparr>])"
    by code_simp
  have bands: "\<And>b. b \<in> set (map aging_category
          [\<lparr>aging_category = ''On Time'', total_amount = 300, invoice_count = 1\<rparr>,
           \<lparr>aging_category = ''1-30 Days Past Due'', total_amount = 5000, invoice_count = 1\<rparr>,
           \<lparr>aging_category = ''Over 90 Days Past Due'', total_amount = 2000,
              invoice_count = 1\<rparr>]) \<longleftrightarrow>
        (\<exists>r \<in> set aging_frame. category r = ''Collectible AR'' \<and>
           categorize_aging (days_past_due r) = b)"
    using aging_summary_present_bands [OF run] by blast
  show ?thesis
    using run bands [of "''On Time''"] bands [of "''61-90 Days Past Due''"] by simp
qed

end
